theory Spec2Isabelle
  imports Complex_Main "HOL-Library.AList"
begin

chapter \<open>bolt-quotation: document lifecycle and pricing engine\<close>

text \<open>
  A shallow embedding of the quotation, invoice, order and payment logic of the
  repository (TypeScript, React hooks and components).

  Conventions of the embedding.
  \<^item> A JavaScript \<open>number\<close> that holds money, a volume or a quantity is a \<^typ>\<open>rat\<close>:
    arithmetic is exact, so IEEE-754 rounding, \<open>NaN\<close> and infinities are outside the
    model. Serial numbers, indices and clock readings are \<^typ>\<open>int\<close> or \<^typ>\<open>nat\<close>.
  \<^item> An interface is a \<^theory_text>\<open>record\<close>. Field names are global in HOL, so every field
    carries a prefix naming its interface (\<open>p_\<close> for \<open>QuotationPart\<close>, \<open>sq_\<close> for
    \<open>SavedQuotation\<close>, \<open>si_\<close> for \<open>SavedInvoice\<close>, ...); after the prefix the name is the
    source's.
  \<^item> An optional property (\<open>technology?: string\<close>) is an \<^typ>\<open>'a option\<close>, \<open>None\<close> being
    \<open>undefined\<close>.
  \<^item> A \<open>Record<string, T>\<close> is an association list in insertion order, which is the
    order \<open>Object.values\<close> enumerates string keys in.
  \<^item> React state is passed explicitly: every handler takes the current state and
    returns the next one; each handler runs against the state the previous one left.
  \<^item> The clock (\<open>new Date()\<close>, \<open>Date.now()\<close>) and \<open>Math.random()\<close> are parameters of the
    functions that read them.
  \<^item> A \<open>throw\<close> (also the \<open>TypeError\<close> of a property read on \<open>undefined\<close>) is the
    \<open>Inl\<close> branch of a sum.
\<close>

section \<open>JavaScript built-ins used by the code\<close>

datatype error = TypeError | QuotationNotFound | MissingCustomerOrParts

type_synonym timestamp = int

type_synonym 'v Record = "(string \<times> 'v) list"

text \<open>\<open>String.prototype.toLowerCase\<close> on ASCII text.\<close>

definition toLowerCase_char :: "char \<Rightarrow> char" where
  "toLowerCase_char c =
     (if 65 \<le> (of_char c :: nat) \<and> (of_char c :: nat) \<le> 90
      then char_of ((of_char c :: nat) + 32) else c)"

definition toLowerCase :: "string \<Rightarrow> string" where
  "toLowerCase s = map toLowerCase_char s"

text \<open>Truthiness of an optional string: defined and not empty.\<close>

definition truthy :: "string option \<Rightarrow> bool" where
  "truthy s = (case s of None \<Rightarrow> False | Some t \<Rightarrow> t \<noteq> [])"

text \<open>
  \<open>String(n)\<close> for a non-negative integer, an integer, and a number that may be \<open>NaN\<close>
  (\<open>None\<close>).
\<close>

fun string_of_nat :: "nat \<Rightarrow> string" where
  "string_of_nat n =
     (if n < 10 then [char_of (48 + n)]
      else string_of_nat (n div 10) @ [char_of (48 + n mod 10)])"

definition String_int :: "int \<Rightarrow> string" where
  "String_int n =
     (if n < 0 then CHR ''-'' # string_of_nat (nat (- n)) else string_of_nat (nat n))"

definition String_number :: "int option \<Rightarrow> string" where
  "String_number n = (case n of None \<Rightarrow> ''NaN'' | Some v \<Rightarrow> String_int v)"

text \<open>
  \<open>parseInt(s)\<close> in radix 10: leading white space is skipped, one sign is read, then the
  longest run of decimal digits; no digit gives \<open>NaN\<close> (\<open>None\<close>). The hexadecimal
  prefix \<open>0x\<close> is not modelled; no string the code passes to \<open>parseInt\<close> from a counter
  contains it.
\<close>

definition isDigit :: "char \<Rightarrow> bool" where
  "isDigit c = (48 \<le> (of_char c :: nat) \<and> (of_char c :: nat) \<le> 57)"

definition isWhiteSpace :: "char \<Rightarrow> bool" where
  "isWhiteSpace c = ((of_char c :: nat) \<in> {9, 10, 11, 12, 13, 32})"

definition digits_value :: "string \<Rightarrow> nat" where
  "digits_value ds = foldl (\<lambda>acc c. 10 * acc + ((of_char c :: nat) - 48)) 0 ds"

definition parseInt :: "string \<Rightarrow> int option" where
  "parseInt s =
     (let s1 = dropWhile isWhiteSpace s;
          negative = (s1 \<noteq> [] \<and> hd s1 = CHR ''-'');
          s2 = (if s1 \<noteq> [] \<and> (hd s1 = CHR ''-'' \<or> hd s1 = CHR ''+'') then tl s1 else s1);
          ds = takeWhile isDigit s2
      in if ds = [] then None
         else Some (if negative then - int (digits_value ds) else int (digits_value ds)))"

text \<open>
  \<open>s.padStart(n, c)\<close>, \<open>s.replace(pat, rep)\<close> with a string pattern (the first
  occurrence only), \<open>s.startsWith(pat)\<close> and \<open>s.slice(-k)\<close>.
\<close>

definition padStart :: "nat \<Rightarrow> char \<Rightarrow> string \<Rightarrow> string" where
  "padStart targetLength c s = replicate (targetLength - length s) c @ s"

fun replace_first :: "string \<Rightarrow> string \<Rightarrow> string \<Rightarrow> string" where
  "replace_first pat rep [] = (if pat = [] then rep else [])"
| "replace_first pat rep (c # cs) =
     (if take (length pat) (c # cs) = pat then rep @ drop (length pat) (c # cs)
      else c # replace_first pat rep cs)"

definition startsWith :: "string \<Rightarrow> string \<Rightarrow> bool" where
  "startsWith pat s = (take (length pat) s = pat)"

definition slice_last :: "nat \<Rightarrow> string \<Rightarrow> string" where
  "slice_last k s = drop (length s - k) s"

text \<open>
  The local calendar date a \<open>Date\<close> reports: \<open>getFullYear()\<close>, \<open>getMonth()\<close> (from 0) and
  \<open>getDate()\<close>. \<open>setDate(getDate() + n)\<close> moves a clock reading by \<open>n\<close> days of 86400000
  milliseconds (daylight-saving shifts of local time are not modelled).
\<close>

record CalendarDate =
  cd_fullYear :: nat
  cd_month :: nat
  cd_date :: nat

definition addDays :: "timestamp \<Rightarrow> int \<Rightarrow> timestamp" where
  "addDays t n = t + n * 86400000"

section \<open>Data model (src/types/index.ts)\<close>

record Material =
  mat_name :: string
  cost_per_cc :: rat
  mat_properties :: "string list"
  mat_colors :: "string list"

record Technology =
  tech_name :: string
  tech_description :: string
  materials :: "Material Record"

record TechnologiesData =
  technologies :: "Technology Record"
  td_last_updated :: string
  td_currency :: string

record Address =
  street :: string
  city :: string
  state :: string
  pin :: string
  country :: string

datatype CustomerType = Business | Individual

datatype CustomerStatus = Active | Inactive

record Customer =
  company_name :: string
  gstn :: "string option"
  contact_person :: string
  email :: string
  phone :: string
  billing_address :: Address
  shipping_address :: Address
  customer_type :: CustomerType
  discount_rate :: rat
  payment_terms :: string
  preferred_technologies :: "string list"
  total_orders :: rat
  total_spent :: rat
  c_status :: CustomerStatus
  c_notes :: string

record CompanyAddress =
  ca_city :: string
  ca_state :: string

record CompanyInfo =
  ci_name :: string
  ci_gstn :: string
  ci_address :: CompanyAddress

section \<open>TaxEngine (gstCalculator)\<close>

definition COMPANY_INFO :: CompanyInfo where
  "COMPANY_INFO =
     \<lparr>ci_name = ''Dexterous Manufacturing Labs Pvt Ltd'',
      ci_gstn = ''29AAGCD4100R2ZC'',
      ci_address = \<lparr>ca_city = ''Bangalore'', ca_state = ''Karnataka''\<rparr>\<rparr>"

datatype GSTType = INTRASTATE | INTERSTATE

record GSTCalculation =
  cgst :: rat
  sgst :: rat
  igst :: rat
  gst_total :: rat
  gst_type :: GSTType

definition GST_RATE :: rat where
  "GST_RATE = 0.18"

definition calculateGST :: "rat \<Rightarrow> Customer \<Rightarrow> GSTCalculation" where
  "calculateGST baseAmount customer =
     (let isIntrastate = (toLowerCase (state (shipping_address customer)) = ''karnataka'')
      in if isIntrastate
         then (let cgst' = baseAmount * 0.09; sgst' = baseAmount * 0.09
               in \<lparr>cgst = cgst', sgst = sgst', igst = 0, gst_total = cgst' + sgst',
                   gst_type = INTRASTATE\<rparr>)
         else (let igst' = baseAmount * GST_RATE
               in \<lparr>cgst = 0, sgst = 0, igst = igst', gst_total = igst',
                   gst_type = INTERSTATE\<rparr>))"

text \<open>The two customers of the GST calculator's test file.\<close>

definition mockKarnatakaCustomer :: Customer where
  "mockKarnatakaCustomer =
     \<lparr>company_name = ''Karnataka Company'', gstn = Some ''29ABCDE1234F1Z5'',
      contact_person = ''John Doe'', email = ''john@test.com'', phone = ''+91-9876543210'',
      billing_address = \<lparr>street = ''123 Test Street'', city = ''Bangalore'',
        state = ''Karnataka'', pin = ''560001'', country = ''India''\<rparr>,
      shipping_address = \<lparr>street = ''123 Test Street'', city = ''Bangalore'',
        state = ''Karnataka'', pin = ''560001'', country = ''India''\<rparr>,
      customer_type = Business, discount_rate = 0.05, payment_terms = ''Net 30'',
      preferred_technologies = [''FDM''], total_orders = 10, total_spent = 50000,
      c_status = Active, c_notes = ''Test customer''\<rparr>"

definition mockOutOfStateCustomer :: Customer where
  "mockOutOfStateCustomer =
     mockKarnatakaCustomer
       \<lparr>company_name := ''Maharashtra Company'',
        shipping_address := \<lparr>street = ''456 Test Street'', city = ''Mumbai'',
          state = ''Maharashtra'', pin = ''400001'', country = ''India''\<rparr>\<rparr>"

section \<open>Line items and partial updates\<close>

record BoundingBox =
  bb_x :: rat
  bb_y :: rat
  bb_z :: rat

text \<open>A browser \<open>File\<close> object is opaque to the pricing code; it is modelled by its name.\<close>

type_synonym File = string

record QuotationPart =
  p_id :: string
  p_serialNumber :: int
  p_fileName :: string
  p_fileType :: string
  p_volume :: rat
  p_boundingBox :: "BoundingBox option"
  p_technology :: "string option"
  p_material :: "string option"
  p_quantity :: rat
  p_unitPrice :: rat
  p_totalPrice :: rat
  p_gstAmount :: rat
  p_finalPrice :: rat
  p_file :: "File option"
  p_selected :: "bool option"
  p_comments :: "string option"

text \<open>
  \<open>Partial<QuotationPart>\<close>: each key is absent (\<open>None\<close>) or present with a value. A key
  of an optional property may be present with the value \<open>undefined\<close> (\<open>Some None\<close>), as
  in \<open>updates.material = undefined\<close>.
\<close>

record PartUpdate =
  u_id :: "string option"
  u_serialNumber :: "int option"
  u_fileName :: "string option"
  u_fileType :: "string option"
  u_volume :: "rat option"
  u_boundingBox :: "BoundingBox option option"
  u_technology :: "string option option"
  u_material :: "string option option"
  u_quantity :: "rat option"
  u_unitPrice :: "rat option"
  u_totalPrice :: "rat option"
  u_gstAmount :: "rat option"
  u_finalPrice :: "rat option"
  u_file :: "File option option"
  u_selected :: "bool option option"
  u_comments :: "string option option"

definition no_update :: PartUpdate where
  "no_update =
     \<lparr>u_id = None, u_serialNumber = None, u_fileName = None, u_fileType = None,
      u_volume = None, u_boundingBox = None, u_technology = None, u_material = None,
      u_quantity = None, u_unitPrice = None, u_totalPrice = None, u_gstAmount = None,
      u_finalPrice = None, u_file = None, u_selected = None, u_comments = None\<rparr>"

text \<open>One key of an object spread \<open>{...part, ...updates}\<close>: a present key wins.\<close>

definition spread_key :: "'a \<Rightarrow> 'a option \<Rightarrow> 'a" where
  "spread_key old new = (case new of None \<Rightarrow> old | Some v \<Rightarrow> v)"

definition spread_part :: "QuotationPart \<Rightarrow> PartUpdate \<Rightarrow> QuotationPart" where
  "spread_part part updates =
     \<lparr>p_id = spread_key (p_id part) (u_id updates),
      p_serialNumber = spread_key (p_serialNumber part) (u_serialNumber updates),
      p_fileName = spread_key (p_fileName part) (u_fileName updates),
      p_fileType = spread_key (p_fileType part) (u_fileType updates),
      p_volume = spread_key (p_volume part) (u_volume updates),
      p_boundingBox = spread_key (p_boundingBox part) (u_boundingBox updates),
      p_technology = spread_key (p_technology part) (u_technology updates),
      p_material = spread_key (p_material part) (u_material updates),
      p_quantity = spread_key (p_quantity part) (u_quantity updates),
      p_unitPrice = spread_key (p_unitPrice part) (u_unitPrice updates),
      p_totalPrice = spread_key (p_totalPrice part) (u_totalPrice updates),
      p_gstAmount = spread_key (p_gstAmount part) (u_gstAmount updates),
      p_finalPrice = spread_key (p_finalPrice part) (u_finalPrice updates),
      p_file = spread_key (p_file part) (u_file updates),
      p_selected = spread_key (p_selected part) (u_selected updates),
      p_comments = spread_key (p_comments part) (u_comments updates)\<rparr>"

text \<open>Reading an optional property of the update: an absent key reads \<open>undefined\<close>.\<close>

definition read_key :: "'a option option \<Rightarrow> 'a option" where
  "read_key k = (case k of None \<Rightarrow> None | Some v \<Rightarrow> v)"

text \<open>Truthiness of \<open>updates.quantity\<close>: present and not zero.\<close>

definition truthy_num :: "rat option \<Rightarrow> bool" where
  "truthy_num q = (case q of None \<Rightarrow> False | Some v \<Rightarrow> v \<noteq> 0)"

text \<open>
  \<open>technologiesData.technologies[t].materials[m]\<close> followed by the read of
  \<open>material.cost_per_cc\<close>: a technology or a material that the catalog does not hold
  makes the read throw a \<open>TypeError\<close>.
\<close>

definition lookupMaterial :: "TechnologiesData \<Rightarrow> string \<Rightarrow> string \<Rightarrow> error + Material" where
  "lookupMaterial td t m =
     (case map_of (technologies td) t of
        None \<Rightarrow> Inl TypeError
      | Some tech \<Rightarrow>
          (case map_of (materials tech) m of
             None \<Rightarrow> Inl TypeError
           | Some mat \<Rightarrow> Inr mat))"

text \<open>
  The pricing block both recalculating branches of \<open>handleUpdateParts\<close> and the one of
  \<open>handleUpdatePart\<close> write: \<open>unitPrice = volume * cost_per_cc\<close>,
  \<open>totalPrice = unitPrice * quantity\<close>, GST on the total, \<open>finalPrice = totalPrice + GST\<close>.
  The branches differ in the material key and the quantity they pass.
\<close>

definition recalculate ::
  "TechnologiesData \<Rightarrow> Customer \<Rightarrow> string \<Rightarrow> rat \<Rightarrow> QuotationPart \<Rightarrow> error + QuotationPart"
where
  "recalculate td customer materialKey quantity updatedPart =
     (case lookupMaterial td (the (p_technology updatedPart)) materialKey of
        Inl e \<Rightarrow> Inl e
      | Inr material \<Rightarrow>
          (let unitPrice = p_volume updatedPart * cost_per_cc material;
               totalPrice = unitPrice * quantity;
               gstCalculation = calculateGST totalPrice customer;
               finalPrice = totalPrice + gst_total gstCalculation
           in Inr (updatedPart
                \<lparr>p_unitPrice := unitPrice, p_totalPrice := totalPrice,
                 p_gstAmount := gst_total gstCalculation, p_finalPrice := finalPrice\<rparr>)))"

section \<open>BulkEditCoordinator (QuotationPage.handleUpdateParts)\<close>

text \<open>\<open>Array.prototype.map\<close> with a callback that may throw: the first throw aborts.\<close>

fun mapE :: "('a \<Rightarrow> error + 'b) \<Rightarrow> 'a list \<Rightarrow> error + 'b list" where
  "mapE f [] = Inr []"
| "mapE f (x # xs) =
     (case f x of
        Inl e \<Rightarrow> Inl e
      | Inr y \<Rightarrow> (case mapE f xs of Inl e \<Rightarrow> Inl e | Inr ys \<Rightarrow> Inr (y # ys)))"

text \<open>
  The conditions of the \<open>if\<close> / \<open>else if\<close> chain in the \<open>map\<close> callback of
  \<open>handleUpdateParts\<close>, in the order of the source, each on the part after the spread.
\<close>

definition quantityBranch :: "Customer option \<Rightarrow> PartUpdate \<Rightarrow> QuotationPart \<Rightarrow> bool" where
  "quantityBranch selectedCustomer updates updatedPart =
     (u_quantity updates \<noteq> None \<and> selectedCustomer \<noteq> None \<and>
      truthy (p_material updatedPart) \<and> truthy (p_technology updatedPart))"

definition materialBranch :: "Customer option \<Rightarrow> PartUpdate \<Rightarrow> QuotationPart \<Rightarrow> bool" where
  "materialBranch selectedCustomer updates updatedPart =
     (selectedCustomer \<noteq> None \<and> truthy (read_key (u_material updates)) \<and>
      truthy (p_technology updatedPart))"

definition resetBranch :: "PartUpdate \<Rightarrow> bool" where
  "resetBranch updates =
     (truthy (read_key (u_technology updates)) \<and> \<not> truthy (read_key (u_material updates)))"

text \<open>The body of the \<open>map\<close> callback of \<open>handleUpdateParts\<close> for a part whose id is selected.\<close>

definition bulkUpdatePart ::
  "Customer option \<Rightarrow> TechnologiesData \<Rightarrow> PartUpdate \<Rightarrow> QuotationPart \<Rightarrow> error + QuotationPart"
where
  "bulkUpdatePart selectedCustomer td updates part =
     (let updatedPart = spread_part part updates
      in if quantityBranch selectedCustomer updates updatedPart
         then recalculate td (the selectedCustomer) (the (p_material updatedPart))
                (the (u_quantity updates)) updatedPart
         else if materialBranch selectedCustomer updates updatedPart
         then recalculate td (the selectedCustomer) (the (read_key (u_material updates)))
                (p_quantity updatedPart) updatedPart
         else if resetBranch updates
         then Inr (updatedPart
                \<lparr>p_unitPrice := 0, p_totalPrice := 0, p_gstAmount := 0, p_finalPrice := 0\<rparr>)
         else Inr updatedPart)"

text \<open>
  \<open>handleUpdateParts\<close> returns the list it hands to \<open>updateParts\<close>; on \<open>Inl\<close> the handler
  has thrown before \<open>updateParts\<close> and the stored part list stays as it was.
\<close>

definition handleUpdateParts ::
  "Customer option \<Rightarrow> TechnologiesData \<Rightarrow> string list \<Rightarrow> PartUpdate \<Rightarrow>
   QuotationPart list \<Rightarrow> error + QuotationPart list"
where
  "handleUpdateParts selectedCustomer td partIds updates parts =
     mapE (\<lambda>part. if p_id part \<in> set partIds
                  then bulkUpdatePart selectedCustomer td updates part
                  else Inr part) parts"

text \<open>\<open>handleUpdatePart\<close>, the single-part path of the page.\<close>

definition updateOnePart ::
  "Customer option \<Rightarrow> TechnologiesData \<Rightarrow> PartUpdate \<Rightarrow> QuotationPart \<Rightarrow> error + QuotationPart"
where
  "updateOnePart selectedCustomer td updates part =
     (let updatedPart = spread_part part updates
      in if selectedCustomer \<noteq> None \<and> truthy (p_material updatedPart) \<and>
            truthy (p_technology updatedPart) \<and>
            (truthy (read_key (u_material updates)) \<or> truthy_num (u_quantity updates))
         then recalculate td (the selectedCustomer) (the (p_material updatedPart))
                (p_quantity updatedPart) updatedPart
         else Inr updatedPart)"

definition handleUpdatePart ::
  "Customer option \<Rightarrow> TechnologiesData \<Rightarrow> string \<Rightarrow> PartUpdate \<Rightarrow>
   QuotationPart list \<Rightarrow> error + QuotationPart list"
where
  "handleUpdatePart selectedCustomer td partId updates parts =
     mapE (\<lambda>part. if p_id part = partId
                  then updateOnePart selectedCustomer td updates part
                  else Inr part) parts"


section \<open>PartCard handlers\<close>

text \<open>What a handler of a part card asks of the page: nothing, a single-part update
  (\<open>onUpdatePart\<close>) or a bulk update (\<open>onBulkUpdate\<close>).\<close>

datatype PartAction = NoAction | UpdatePart string PartUpdate | BulkUpdate "string list" PartUpdate

definition isPartSelected :: "QuotationPart \<Rightarrow> bool" where
  "isPartSelected part = (p_selected part = Some True)"

definition hasMultipleSelected :: "QuotationPart list \<Rightarrow> bool" where
  "hasMultipleSelected selectedParts = (length selectedParts > 1)"

definition handleTechnologyChange ::
  "QuotationPart \<Rightarrow> QuotationPart list \<Rightarrow> bool \<Rightarrow> string \<Rightarrow> PartAction"
where
  "handleTechnologyChange part selectedParts onBulkUpdate techId =
     (let updates = no_update
            \<lparr>u_technology := Some (Some techId), u_material := Some None,
             u_unitPrice := Some 0, u_totalPrice := Some 0, u_gstAmount := Some 0,
             u_finalPrice := Some 0\<rparr>
      in if hasMultipleSelected selectedParts \<and> isPartSelected part \<and> onBulkUpdate
         then BulkUpdate (map p_id selectedParts) updates
         else UpdatePart (p_id part) updates)"

definition handleMaterialChange ::
  "QuotationPart \<Rightarrow> TechnologiesData \<Rightarrow> Customer option \<Rightarrow> QuotationPart list \<Rightarrow> bool \<Rightarrow>
   string \<Rightarrow> error + PartAction"
where
  "handleMaterialChange part td customer selectedParts onBulkUpdate materialId =
     (if \<not> truthy (p_technology part) \<or> customer = None then Inr NoAction
      else if hasMultipleSelected selectedParts \<and> isPartSelected part \<and> onBulkUpdate
      then Inr (BulkUpdate (map p_id selectedParts)
                 (no_update\<lparr>u_material := Some (Some materialId)\<rparr>))
      else
        (case lookupMaterial td (the (p_technology part)) materialId of
           Inl e \<Rightarrow> Inl e
         | Inr material \<Rightarrow>
             (let unitPrice = p_volume part * cost_per_cc material;
                  totalPrice = unitPrice * p_quantity part;
                  gstCalculation = calculateGST totalPrice (the customer);
                  finalPrice = totalPrice + gst_total gstCalculation
              in Inr (UpdatePart (p_id part)
                       (no_update
                          \<lparr>u_material := Some (Some materialId), u_unitPrice := Some unitPrice,
                           u_totalPrice := Some totalPrice,
                           u_gstAmount := Some (gst_total gstCalculation),
                           u_finalPrice := Some finalPrice\<rparr>)))))"

definition handleQuantityChange ::
  "QuotationPart \<Rightarrow> Customer option \<Rightarrow> QuotationPart list \<Rightarrow> bool \<Rightarrow> rat \<Rightarrow> PartAction"
where
  "handleQuantityChange part customer selectedParts onBulkUpdate quantity =
     (if hasMultipleSelected selectedParts \<and> isPartSelected part \<and> onBulkUpdate
      then BulkUpdate (map p_id selectedParts) (no_update\<lparr>u_quantity := Some quantity\<rparr>)
      else
        (let totalPrice = p_unitPrice part * quantity;
             gstAmount = (if customer \<noteq> None \<and> totalPrice > 0
                          then gst_total (calculateGST totalPrice (the customer)) else 0);
             finalPrice = (if customer \<noteq> None \<and> totalPrice > 0
                           then totalPrice + gstAmount else totalPrice)
         in UpdatePart (p_id part)
              (no_update
                 \<lparr>u_quantity := Some quantity, u_totalPrice := Some totalPrice,
                  u_gstAmount := Some gstAmount, u_finalPrice := Some finalPrice\<rparr>)))"

text \<open>
  The page renders one card per part with \<open>selectedParts = parts.filter(p => p.selected)\<close>,
  its own \<open>selectedCustomer\<close>, \<open>onUpdatePart = handleUpdatePart\<close> and
  \<open>onBulkUpdate = handleUpdateParts\<close>.
\<close>

definition pageSelectedParts :: "QuotationPart list \<Rightarrow> QuotationPart list" where
  "pageSelectedParts parts = filter (\<lambda>part. p_selected part = Some True) parts"

definition dispatch ::
  "Customer option \<Rightarrow> TechnologiesData \<Rightarrow> PartAction \<Rightarrow> QuotationPart list \<Rightarrow>
   error + QuotationPart list"
where
  "dispatch selectedCustomer td action parts =
     (case action of
        NoAction \<Rightarrow> Inr parts
      | UpdatePart partId updates \<Rightarrow> handleUpdatePart selectedCustomer td partId updates parts
      | BulkUpdate partIds updates \<Rightarrow> handleUpdateParts selectedCustomer td partIds updates parts)"

definition cardQuantityChange ::
  "Customer option \<Rightarrow> TechnologiesData \<Rightarrow> QuotationPart list \<Rightarrow> QuotationPart \<Rightarrow> rat \<Rightarrow>
   error + QuotationPart list"
where
  "cardQuantityChange selectedCustomer td parts part quantity =
     dispatch selectedCustomer td
       (handleQuantityChange part selectedCustomer (pageSelectedParts parts) True quantity) parts"

definition cardMaterialChange ::
  "Customer option \<Rightarrow> TechnologiesData \<Rightarrow> QuotationPart list \<Rightarrow> QuotationPart \<Rightarrow> string \<Rightarrow>
   error + QuotationPart list"
where
  "cardMaterialChange selectedCustomer td parts part materialId =
     (case handleMaterialChange part td selectedCustomer (pageSelectedParts parts) True materialId of
        Inl e \<Rightarrow> Inl e
      | Inr action \<Rightarrow> dispatch selectedCustomer td action parts)"

text \<open>
  Example inputs: the catalog of the component tests with a second material added, the
  part of the component tests, the same part priced in PLA for a Karnataka customer
  (\<open>pricedPart\<close>), that part after the customer was cleared (\<open>clearedPart\<close>:
  \<open>handleCustomerChange\<close> leaves \<open>gstAmount = 0\<close> and \<open>finalPrice = totalPrice\<close>), two selected
  copies of it under other ids, and four updates: the one the bulk form builds for
  technology FDM, material ABS and quantity 2, a material alone, the one a technology
  change builds, and a comment alone.
\<close>

definition exampleCatalog :: TechnologiesData where
  "exampleCatalog =
     \<lparr>technologies =
        [(''FDM'', \<lparr>tech_name = ''Fused Deposition Modeling'',
                   tech_description = ''Layer-by-layer deposition'',
                   materials =
                     [(''PLA'', \<lparr>mat_name = ''Polylactic Acid'', cost_per_cc = 3.50,
                                mat_properties = [''Biodegradable''],
                                mat_colors = [''White'', ''Black'']\<rparr>),
                      (''ABS'', \<lparr>mat_name = ''Acrylonitrile Butadiene Styrene'',
                                cost_per_cc = 4, mat_properties = [''Tough''],
                                mat_colors = [''Black'']\<rparr>)]\<rparr>)],
      td_last_updated = ''2025-01-01'', td_currency = ''INR''\<rparr>"

definition mockPart :: QuotationPart where
  "mockPart =
     \<lparr>p_id = ''part1'', p_serialNumber = 1, p_fileName = ''test.stl'', p_fileType = ''stl'',
      p_volume = 10.5, p_boundingBox = Some \<lparr>bb_x = 20, bb_y = 15, bb_z = 10\<rparr>,
      p_technology = None, p_material = None, p_quantity = 1, p_unitPrice = 0,
      p_totalPrice = 0, p_gstAmount = 0, p_finalPrice = 0, p_file = Some ''test.stl'',
      p_selected = Some False, p_comments = None\<rparr>"

definition pricedPart :: QuotationPart where
  "pricedPart =
     mockPart
       \<lparr>p_technology := Some ''FDM'', p_material := Some ''PLA'', p_unitPrice := 36.75,
        p_totalPrice := 36.75, p_gstAmount := 6.615, p_finalPrice := 43.365\<rparr>"

definition clearedPart :: QuotationPart where
  "clearedPart = pricedPart\<lparr>p_gstAmount := 0, p_finalPrice := 36.75\<rparr>"

definition secondPart :: QuotationPart where
  "secondPart = pricedPart\<lparr>p_id := ''part2'', p_serialNumber := 2, p_selected := Some True\<rparr>"

definition thirdPart :: QuotationPart where
  "thirdPart = pricedPart\<lparr>p_id := ''part3'', p_serialNumber := 3, p_selected := Some True\<rparr>"

definition exampleBulkUpdate :: PartUpdate where
  "exampleBulkUpdate =
     no_update
       \<lparr>u_technology := Some (Some ''FDM''), u_material := Some (Some ''ABS''),
        u_quantity := Some 2\<rparr>"

definition materialOnlyUpdate :: PartUpdate where
  "materialOnlyUpdate = no_update\<lparr>u_material := Some (Some ''ABS'')\<rparr>"

definition technologyResetUpdate :: PartUpdate where
  "technologyResetUpdate =
     no_update
       \<lparr>u_technology := Some (Some ''SLA''), u_material := Some None, u_unitPrice := Some 0,
        u_totalPrice := Some 0, u_gstAmount := Some 0, u_finalPrice := Some 0\<rparr>"

definition commentUpdate :: PartUpdate where
  "commentUpdate = no_update\<lparr>u_comments := Some (Some ''urgent'')\<rparr>"

text \<open>
  A catalog with two technologies, FDM (PLA, ABS) and SLA (Resin), and a selected part
  in SLA Resin. ABS is a material of FDM only.
\<close>

definition twoTechnologyCatalog :: TechnologiesData where
  "twoTechnologyCatalog =
     exampleCatalog
       \<lparr>technologies :=
          technologies exampleCatalog @
          [(''SLA'', \<lparr>tech_name = ''Stereolithography'',
                     tech_description = ''Resin curing'',
                     materials =
                       [(''Resin'', \<lparr>mat_name = ''Standard Resin'', cost_per_cc = 6,
                                    mat_properties = [''Smooth''],
                                    mat_colors = [''Grey'']\<rparr>)]\<rparr>)]\<rparr>"

definition resinPart :: QuotationPart where
  "resinPart =
     mockPart
       \<lparr>p_id := ''part4'', p_serialNumber := 4, p_technology := Some ''SLA'',
        p_material := Some ''Resin'', p_unitPrice := 63, p_totalPrice := 63,
        p_gstAmount := 11.34, p_finalPrice := 74.34, p_selected := Some True\<rparr>"

section \<open>Saved quotations (useSavedQuotations)\<close>

record ServiceCharge =
  sc_id :: string
  sc_description :: string
  sc_amount :: rat

datatype QuotationStatus = QDraft | QSent | Approved | Rejected | Expired

datatype ShippingAddressType = Billing | Shipping

text \<open>
  A saved part is a \<open>QuotationPart\<close> without \<open>file\<close> and \<open>selected\<close>; it is the same record
  with those two fields \<open>None\<close>.
\<close>

record SavedQuotation =
  sq_id :: string
  sq_quotationNumber :: string
  sq_customerId :: string
  sq_customerName :: string
  sq_parts :: "QuotationPart list"
  sq_totalBasePrice :: rat
  sq_discount :: rat
  sq_totalGST :: rat
  sq_finalPrice :: rat
  sq_status :: QuotationStatus
  sq_createdAt :: timestamp
  sq_updatedAt :: timestamp
  sq_notes :: string
  sq_validUntil :: timestamp
  sq_gstType :: GSTType
  sq_paymentTerms :: "string option"
  sq_leadTime :: "string option"
  sq_shippingAddressType :: "ShippingAddressType option"
  sq_serviceCharges :: "ServiceCharge list"
  sq_totalServiceCharges :: rat

record SavedQuotationsData =
  quotations :: "SavedQuotation Record"
  q_last_updated :: timestamp
  next_quotation_number :: string

record SaveQuotationParams =
  sp_customerId :: string
  sp_customerName :: string
  sp_parts :: "QuotationPart list"
  sp_totalBasePrice :: rat
  sp_discount :: rat
  sp_totalGST :: rat
  sp_finalPrice :: rat
  sp_gstType :: GSTType
  sp_notes :: string
  sp_paymentTerms :: "string option"
  sp_leadTime :: "string option"
  sp_shippingAddressType :: "ShippingAddressType option"
  sp_serviceCharges :: "ServiceCharge list"
  sp_totalServiceCharges :: rat
  sp_existingQuotationId :: "string option"

definition createEmptyQuotationsData :: "timestamp \<Rightarrow> SavedQuotationsData" where
  "createEmptyQuotationsData now =
     \<lparr>quotations = [], q_last_updated = now, next_quotation_number = ''QT0001''\<rparr>"

definition generateQuotationNumber :: "CalendarDate \<Rightarrow> string \<Rightarrow> string" where
  "generateQuotationNumber today serialNumber =
     (let year = slice_last 2 (string_of_nat (cd_fullYear today));
          month = padStart 2 CHR ''0'' (string_of_nat (cd_month today + 1));
          day = padStart 2 CHR ''0'' (string_of_nat (cd_date today));
          numericPart = padStart 3 CHR ''0'' (replace_first ''QT'' [] serialNumber)
      in ''QT'' @ year @ month @ day @ numericPart)"

text \<open>\<open>parts.map((part, index) => ({...part, id: `${quotationId}_part_${index + 1}`}))\<close>\<close>

definition partsWithIds :: "string \<Rightarrow> QuotationPart list \<Rightarrow> QuotationPart list" where
  "partsWithIds quotationId parts =
     map (\<lambda>(index, part). part\<lparr>p_id := quotationId @ ''_part_'' @ string_of_nat (index + 1)\<rparr>)
       (enumerate 0 parts)"

text \<open>
  The two object literals of \<open>saveQuotation\<close>, \<open>updatedQuotation\<close> and \<open>newQuotation\<close>, as
  functions of the variables they read.
\<close>

definition updatedQuotation ::
  "timestamp \<Rightarrow> timestamp \<Rightarrow> SaveQuotationParams \<Rightarrow> string \<Rightarrow> SavedQuotation \<Rightarrow> SavedQuotation"
where
  "updatedQuotation now validUntil params existingQuotationId existingQuotation =
     existingQuotation
       \<lparr>sq_customerId := sp_customerId params,
        sq_customerName := sp_customerName params,
        sq_parts := partsWithIds existingQuotationId (sp_parts params),
        sq_totalBasePrice := sp_totalBasePrice params,
        sq_discount := sp_discount params,
        sq_totalGST := sp_totalGST params,
        sq_finalPrice := sp_finalPrice params,
        sq_updatedAt := now,
        sq_notes := sp_notes params,
        sq_paymentTerms := sp_paymentTerms params,
        sq_leadTime := sp_leadTime params,
        sq_shippingAddressType := sp_shippingAddressType params,
        sq_serviceCharges := sp_serviceCharges params,
        sq_totalServiceCharges := sp_totalServiceCharges params,
        sq_validUntil := validUntil,
        sq_gstType := sp_gstType params,
        sq_status := QDraft\<rparr>"

definition newQuotation ::
  "timestamp \<Rightarrow> timestamp \<Rightarrow> SaveQuotationParams \<Rightarrow> string \<Rightarrow> string \<Rightarrow> SavedQuotation"
where
  "newQuotation now validUntil params quotationId quotationNumber =
     \<lparr>sq_id = quotationId,
      sq_quotationNumber = quotationNumber,
      sq_customerId = sp_customerId params,
      sq_customerName = sp_customerName params,
      sq_parts = partsWithIds quotationId (sp_parts params),
      sq_totalBasePrice = sp_totalBasePrice params,
      sq_discount = sp_discount params,
      sq_totalGST = sp_totalGST params,
      sq_finalPrice = sp_finalPrice params,
      sq_status = QDraft,
      sq_createdAt = now,
      sq_updatedAt = now,
      sq_notes = sp_notes params,
      sq_validUntil = validUntil,
      sq_gstType = sp_gstType params,
      sq_paymentTerms = sp_paymentTerms params,
      sq_leadTime = sp_leadTime params,
      sq_shippingAddressType = sp_shippingAddressType params,
      sq_serviceCharges = sp_serviceCharges params,
      sq_totalServiceCharges = sp_totalServiceCharges params\<rparr>"

text \<open>
  \<open>saveQuotation\<close>. \<open>now\<close> is the clock, \<open>today\<close> its local calendar date and \<open>rnd\<close> the
  random suffix of the generated id. The result is the id returned and the next store,
  or the error thrown.
\<close>

definition saveQuotation ::
  "timestamp \<Rightarrow> CalendarDate \<Rightarrow> string \<Rightarrow> SaveQuotationParams \<Rightarrow> SavedQuotationsData \<Rightarrow>
   error + (string \<times> SavedQuotationsData)"
where
  "saveQuotation now today rnd params quotationsData =
     (if truthy (sp_existingQuotationId params)
      then
        (let existingQuotationId = the (sp_existingQuotationId params)
         in case map_of (quotations quotationsData) existingQuotationId of
              None \<Rightarrow> Inl QuotationNotFound
            | Some existingQuotation \<Rightarrow>
                (let validUntil = addDays now 30
                 in Inr (existingQuotationId,
                      quotationsData
                        \<lparr>quotations :=
                           AList.update existingQuotationId
                             (updatedQuotation now validUntil params existingQuotationId
                                existingQuotation)
                             (quotations quotationsData),
                         q_last_updated := now\<rparr>)))
      else
        (let quotationId = ''quot_'' @ String_int now @ ''_'' @ rnd;
             validUntil = addDays now 30;
             quotationNumber =
               generateQuotationNumber today (next_quotation_number quotationsData);
             currentNum = parseInt (replace_first ''QT'' [] (next_quotation_number quotationsData));
             nextQuotationNumber =
               ''QT'' @ padStart 4 CHR ''0'' (String_number (map_option (\<lambda>n. n + 1) currentNum))
         in Inr (quotationId,
              \<lparr>quotations =
                 AList.update quotationId
                   (newQuotation now validUntil params quotationId quotationNumber)
                   (quotations quotationsData),
               q_last_updated = now,
               next_quotation_number = nextQuotationNumber\<rparr>)))"

definition deleteQuotation :: "timestamp \<Rightarrow> string \<Rightarrow> SavedQuotationsData \<Rightarrow> SavedQuotationsData" where
  "deleteQuotation now quotationId prev =
     prev\<lparr>quotations := AList.delete quotationId (quotations prev), q_last_updated := now\<rparr>"

section \<open>Invoices, payments and orders (useSavedInvoices, useOrders)\<close>

datatype PaymentMethod = Cash | BankTransfer | Cheque | UPI | Card | Other

record Payment =
  pay_id :: string
  pay_amount :: rat
  pay_paymentDate :: string
  pay_paymentMethod :: PaymentMethod
  pay_referenceNumber :: "string option"
  pay_notes :: "string option"
  pay_createdAt :: timestamp

text \<open>\<open>Omit<Payment, 'id' | 'createdAt'>\<close>, the argument of \<open>addPayment\<close>.\<close>

record PaymentInput =
  pi_amount :: rat
  pi_paymentDate :: string
  pi_paymentMethod :: PaymentMethod
  pi_referenceNumber :: "string option"
  pi_notes :: "string option"

datatype InvoiceStatus = Draft | Sent | Paid | Overdue | Cancelled

record SavedInvoice =
  si_id :: string
  si_invoiceNumber :: string
  si_quotationId :: string
  si_quotationNumber :: string
  si_customerId :: string
  si_customerName :: string
  si_parts :: "QuotationPart list"
  si_totalBasePrice :: rat
  si_discount :: rat
  si_totalGST :: rat
  si_finalPrice :: rat
  si_status :: InvoiceStatus
  si_createdAt :: timestamp
  si_updatedAt :: timestamp
  si_dueDate :: timestamp
  si_notes :: string
  si_gstType :: GSTType
  si_shippingAddressType :: "ShippingAddressType option"
  si_payments :: "Payment list"
  si_totalPaid :: rat
  si_remainingAmount :: rat
  si_serviceCharges :: "ServiceCharge list"
  si_totalServiceCharges :: rat

record SavedInvoicesData =
  invoices :: "SavedInvoice Record"
  i_last_updated :: timestamp
  next_invoice_number :: string

datatype OrderStatus = New | Produced | Dispatched | OrderCancelled

record OrderPart =
  op_id :: string
  op_serialNumber :: int
  op_fileName :: string
  op_fileType :: string
  op_volume :: rat
  op_boundingBox :: "BoundingBox option"
  op_technology :: "string option"
  op_material :: "string option"
  op_quantity :: rat
  op_comments :: "string option"

record Order =
  o_id :: string
  o_orderNumber :: string
  o_invoiceId :: string
  o_invoiceNumber :: string
  o_customerId :: string
  o_parts :: "OrderPart list"
  o_status :: OrderStatus
  o_createdAt :: timestamp
  o_updatedAt :: timestamp
  o_serviceCharges :: "ServiceCharge list"
  o_totalServiceCharges :: rat

record OrdersData =
  orders :: "Order Record"
  o_last_updated :: timestamp
  next_order_number :: string

definition createEmptyInvoicesData :: "timestamp \<Rightarrow> SavedInvoicesData" where
  "createEmptyInvoicesData now =
     \<lparr>invoices = [], i_last_updated = now, next_invoice_number = ''INV0001''\<rparr>"

definition createEmptyOrdersData :: "timestamp \<Rightarrow> OrdersData" where
  "createEmptyOrdersData now =
     \<lparr>orders = [], o_last_updated = now, next_order_number = ''ORD0001''\<rparr>"

subsection \<open>Orders\<close>

definition generateOrderNumber :: "CalendarDate \<Rightarrow> OrdersData \<Rightarrow> string" where
  "generateOrderNumber today ordersData =
     (let year = slice_last 2 (string_of_nat (cd_fullYear today));
          month = padStart 2 CHR ''0'' (string_of_nat (cd_month today + 1));
          day = padStart 2 CHR ''0'' (string_of_nat (cd_date today));
          numericPart =
            padStart 3 CHR ''0'' (replace_first ''ORD'' [] (next_order_number ordersData))
      in ''ORD'' @ year @ month @ day @ numericPart)"

text \<open>The callback of \<open>invoice.parts.map\<close> in \<open>createOrder\<close>.\<close>

definition orderPartOf :: "QuotationPart \<Rightarrow> OrderPart" where
  "orderPartOf part =
     \<lparr>op_id = p_id part,
      op_serialNumber = p_serialNumber part,
      op_fileName = p_fileName part,
      op_fileType = p_fileType part,
      op_volume = p_volume part,
      op_boundingBox = p_boundingBox part,
      op_technology = p_technology part,
      op_material = p_material part,
      op_quantity = p_quantity part,
      op_comments = p_comments part\<rparr>"

text \<open>
  The object literal \<open>newOrder\<close> of \<open>createOrder\<close>. \<open>invoice.serviceCharges || []\<close> and
  \<open>invoice.totalServiceCharges || 0\<close> are the invoice's own values: the list is always
  defined in a \<open>SavedInvoice\<close>, and a total of 0 stays 0.
\<close>

definition newOrder :: "timestamp \<Rightarrow> string \<Rightarrow> string \<Rightarrow> SavedInvoice \<Rightarrow> Order" where
  "newOrder now orderId orderNumber invoice =
     \<lparr>o_id = orderId,
      o_orderNumber = orderNumber,
      o_invoiceId = si_id invoice,
      o_invoiceNumber = si_invoiceNumber invoice,
      o_customerId = si_customerId invoice,
      o_parts = map orderPartOf (si_parts invoice),
      o_status = New,
      o_createdAt = now,
      o_updatedAt = now,
      o_serviceCharges = si_serviceCharges invoice,
      o_totalServiceCharges = si_totalServiceCharges invoice\<rparr>"

definition createOrder ::
  "timestamp \<Rightarrow> CalendarDate \<Rightarrow> string \<Rightarrow> SavedInvoice \<Rightarrow> OrdersData \<Rightarrow> string \<times> OrdersData"
where
  "createOrder now today rnd invoice ordersData =
     (let orderId = ''order_'' @ String_int now @ ''_'' @ rnd;
          orderNumber = generateOrderNumber today ordersData;
          currentNum = parseInt (replace_first ''ORD'' [] (next_order_number ordersData));
          nextOrderNumber =
            ''ORD'' @ padStart 4 CHR ''0'' (String_number (map_option (\<lambda>n. n + 1) currentNum))
      in (orderId,
          ordersData
            \<lparr>orders :=
               AList.update orderId (newOrder now orderId orderNumber invoice)
                 (orders ordersData),
             o_last_updated := now,
             next_order_number := nextOrderNumber\<rparr>))"

definition deleteOrder :: "timestamp \<Rightarrow> string \<Rightarrow> OrdersData \<Rightarrow> OrdersData" where
  "deleteOrder now orderId prev =
     prev\<lparr>orders := AList.delete orderId (orders prev), o_last_updated := now\<rparr>"

subsection \<open>Promotion of a quotation\<close>

text \<open>The three stores the lifecycle touches.\<close>

record AppState =
  qdata :: SavedQuotationsData
  idata :: SavedInvoicesData
  odata :: OrdersData

definition generateInvoiceNumber :: "CalendarDate \<Rightarrow> SavedInvoicesData \<Rightarrow> string" where
  "generateInvoiceNumber today invoicesData =
     (let year = slice_last 2 (string_of_nat (cd_fullYear today));
          month = padStart 2 CHR ''0'' (string_of_nat (cd_month today + 1));
          day = padStart 2 CHR ''0'' (string_of_nat (cd_date today));
          numericPart =
            padStart 3 CHR ''0'' (replace_first ''INV'' [] (next_invoice_number invoicesData))
      in ''INV'' @ year @ month @ day @ numericPart)"

definition dueDateFor :: "string option \<Rightarrow> timestamp \<Rightarrow> timestamp" where
  "dueDateFor terms now =
     (let paymentTerms = (if truthy terms then the terms else ''Net 30'')
      in if paymentTerms = ''100% advance'' then now
         else if paymentTerms = ''60% advance and rest upon delivery'' then now
         else if paymentTerms = ''Payment on delivery'' then addDays now 7
         else if startsWith ''Net '' paymentTerms
         then (case parseInt (replace_first ''Net '' [] paymentTerms) of
                 Some days \<Rightarrow> addDays now days
               | None \<Rightarrow> addDays now 30)
         else addDays now 30)"

text \<open>The object literal \<open>newInvoice\<close> of \<open>createInvoiceFromQuotation\<close>.\<close>

definition newInvoice ::
  "timestamp \<Rightarrow> string \<Rightarrow> string \<Rightarrow> timestamp \<Rightarrow> SavedQuotation \<Rightarrow> SavedInvoice"
where
  "newInvoice now invoiceId invoiceNumber dueDate quotation =
     \<lparr>si_id = invoiceId,
      si_invoiceNumber = invoiceNumber,
      si_quotationId = sq_id quotation,
      si_quotationNumber = sq_quotationNumber quotation,
      si_customerId = sq_customerId quotation,
      si_customerName = sq_customerName quotation,
      si_parts = sq_parts quotation,
      si_totalBasePrice = sq_totalBasePrice quotation,
      si_discount = sq_discount quotation,
      si_totalGST = sq_totalGST quotation,
      si_finalPrice = sq_finalPrice quotation,
      si_status = Draft,
      si_createdAt = now,
      si_updatedAt = now,
      si_dueDate = dueDate,
      si_notes = sq_notes quotation,
      si_gstType = sq_gstType quotation,
      si_shippingAddressType =
        Some (case sq_shippingAddressType quotation of None \<Rightarrow> Shipping | Some t \<Rightarrow> t),
      si_payments = [],
      si_totalPaid = 0,
      si_remainingAmount = sq_finalPrice quotation,
      si_serviceCharges = sq_serviceCharges quotation,
      si_totalServiceCharges = sq_totalServiceCharges quotation\<rparr>"

text \<open>
  \<open>createInvoiceFromQuotation\<close>. \<open>onQuotationDeleted\<close> is the caller's callback, a
  transformer of the state. The function returns the invoice id; the id of the order it
  creates, which the source only logs, is returned with it. \<open>createOrder\<close> cannot throw
  on a well-typed invoice, so the \<open>catch\<close> around it has no branch here.
\<close>

definition createInvoiceFromQuotation ::
  "timestamp \<Rightarrow> CalendarDate \<Rightarrow> string \<Rightarrow> string \<Rightarrow> SavedQuotation \<Rightarrow>
   (string \<Rightarrow> AppState \<Rightarrow> AppState) \<Rightarrow> AppState \<Rightarrow> (string \<times> string) \<times> AppState"
where
  "createInvoiceFromQuotation now today rndInvoice rndOrder quotation onQuotationDeleted st =
     (let invoicesData = idata st;
          invoiceId = ''inv_'' @ String_int now @ ''_'' @ rndInvoice;
          dueDate = dueDateFor (sq_paymentTerms quotation) now;
          invoiceNumber = generateInvoiceNumber today invoicesData;
          invoice = newInvoice now invoiceId invoiceNumber dueDate quotation;
          currentNum = parseInt (replace_first ''INV'' [] (next_invoice_number invoicesData));
          nextInvoiceNumber =
            ''INV'' @ padStart 4 CHR ''0'' (String_number (map_option (\<lambda>n. n + 1) currentNum));
          st1 = st\<lparr>idata := invoicesData
                  \<lparr>invoices := AList.update invoiceId invoice (invoices invoicesData),
                   i_last_updated := now,
                   next_invoice_number := nextInvoiceNumber\<rparr>\<rparr>;
          st2 = onQuotationDeleted (sq_id quotation) st1;
          created = createOrder now today rndOrder invoice (odata st2)
      in ((invoiceId, fst created), st2\<lparr>odata := snd created\<rparr>))"

text \<open>\<open>SavedQuotationsPage.handleCreateInvoice\<close> passes \<open>deleteQuotation\<close> as the callback.\<close>

definition handleCreateInvoice ::
  "timestamp \<Rightarrow> CalendarDate \<Rightarrow> string \<Rightarrow> string \<Rightarrow> SavedQuotation \<Rightarrow> AppState \<Rightarrow>
   (string \<times> string) \<times> AppState"
where
  "handleCreateInvoice now today rndInvoice rndOrder quotation st =
     createInvoiceFromQuotation now today rndInvoice rndOrder quotation
       (\<lambda>quotationId s. s\<lparr>qdata := deleteQuotation now quotationId (qdata s)\<rparr>) st"

text \<open>
  \<open>deleteInvoice\<close>. The order whose \<open>invoiceId\<close> matches is looked up in the persisted
  orders; the block that removes it first calls \<open>require\<close>, which throws where
  \<open>require\<close> is not bound, and the \<open>catch\<close> then leaves the order in place:
  \<open>requireBound\<close> says which. The invoice is removed in both cases.
\<close>

definition deleteInvoice :: "timestamp \<Rightarrow> bool \<Rightarrow> string \<Rightarrow> AppState \<Rightarrow> AppState" where
  "deleteInvoice now requireBound invoiceId st =
     (let ordersData' =
            (case map_of (invoices (idata st)) invoiceId of
               None \<Rightarrow> odata st
             | Some invoice \<Rightarrow>
                 (case find (\<lambda>order. o_invoiceId order = invoiceId) (map snd (orders (odata st))) of
                    None \<Rightarrow> odata st
                  | Some orderToDelete \<Rightarrow>
                      if requireBound
                      then (odata st)
                             \<lparr>orders := AList.delete (o_id orderToDelete) (orders (odata st)),
                              o_last_updated := now\<rparr>
                      else odata st))
      in st\<lparr>odata := ordersData',
            idata := (idata st)
              \<lparr>invoices := AList.delete invoiceId (invoices (idata st)),
               i_last_updated := now\<rparr>\<rparr>)"

subsection \<open>PaymentLedger\<close>

text \<open>The status both ledger operations derive from the new remaining amount.\<close>

definition ledgerStatus :: "timestamp \<Rightarrow> SavedInvoice \<Rightarrow> rat \<Rightarrow> InvoiceStatus" where
  "ledgerStatus now invoice newRemainingAmount =
     (if newRemainingAmount \<le> 0 then Paid
      else if si_status invoice = Paid
      then (let isOverdue = (si_dueDate invoice < now) in if isOverdue then Overdue else Sent)
      else si_status invoice)"

definition addPayment ::
  "timestamp \<Rightarrow> string \<Rightarrow> string \<Rightarrow> PaymentInput \<Rightarrow> SavedInvoicesData \<Rightarrow> SavedInvoicesData"
where
  "addPayment now rnd invoiceId payment invoicesData =
     (case map_of (invoices invoicesData) invoiceId of
        None \<Rightarrow> invoicesData
      | Some invoice \<Rightarrow>
          (let newPayment =
                 \<lparr>pay_id = ''payment_'' @ String_int now @ ''_'' @ rnd,
                  pay_amount = pi_amount payment,
                  pay_paymentDate = pi_paymentDate payment,
                  pay_paymentMethod = pi_paymentMethod payment,
                  pay_referenceNumber = pi_referenceNumber payment,
                  pay_notes = pi_notes payment,
                  pay_createdAt = now\<rparr>;
               updatedPayments = si_payments invoice @ [newPayment];
               newTotalPaid = foldl (\<lambda>sum p. sum + pay_amount p) 0 updatedPayments;
               newRemainingAmount = si_finalPrice invoice - newTotalPaid;
               newStatus = ledgerStatus now invoice newRemainingAmount
           in invoicesData
                \<lparr>invoices :=
                   AList.update invoiceId
                     (invoice
                        \<lparr>si_payments := updatedPayments,
                         si_totalPaid := newTotalPaid,
                         si_remainingAmount := newRemainingAmount,
                         si_status := newStatus,
                         si_updatedAt := now\<rparr>)
                     (invoices invoicesData),
                 i_last_updated := now\<rparr>))"

definition removePayment ::
  "timestamp \<Rightarrow> string \<Rightarrow> string \<Rightarrow> SavedInvoicesData \<Rightarrow> SavedInvoicesData"
where
  "removePayment now invoiceId paymentId invoicesData =
     (case map_of (invoices invoicesData) invoiceId of
        None \<Rightarrow> invoicesData
      | Some invoice \<Rightarrow>
          (let updatedPayments = filter (\<lambda>p. pay_id p \<noteq> paymentId) (si_payments invoice);
               newTotalPaid = foldl (\<lambda>sum p. sum + pay_amount p) 0 updatedPayments;
               newRemainingAmount = si_finalPrice invoice - newTotalPaid;
               newStatus = ledgerStatus now invoice newRemainingAmount
           in invoicesData
                \<lparr>invoices :=
                   AList.update invoiceId
                     (invoice
                        \<lparr>si_payments := updatedPayments,
                         si_totalPaid := newTotalPaid,
                         si_remainingAmount := newRemainingAmount,
                         si_status := newStatus,
                         si_updatedAt := now\<rparr>)
                     (invoices invoicesData),
                 i_last_updated := now\<rparr>))"

subsection \<open>Payment form (PaymentModal) and its wiring in InvoicesPage\<close>

text \<open>
  The amount input has \<open>type="number"\<close>: its value is the empty string or a valid
  numeral. \<open>f_amount\<close> is what \<open>parseFloat\<close> reads from it, \<open>None\<close> for the empty string.
  \<open>validationErrors\<close> lists the keys \<open>validateForm\<close> puts in \<open>newErrors\<close>.
\<close>

record PaymentFormData =
  f_amount :: "rat option"
  f_paymentDate :: string
  f_paymentMethod :: PaymentMethod
  f_referenceNumber :: string
  f_notes :: string

definition validationErrors :: "rat \<Rightarrow> PaymentFormData \<Rightarrow> string list" where
  "validationErrors remainingAmount formData =
     (case f_amount formData of
        None \<Rightarrow> [''amount'']
      | Some amount \<Rightarrow>
          if amount \<le> 0 then [''amount'']
          else if amount > remainingAmount then [''amount''] else []) @
     (if f_paymentDate formData = [] then [''paymentDate''] else [])"

definition validateForm :: "rat \<Rightarrow> PaymentFormData \<Rightarrow> bool" where
  "validateForm remainingAmount formData = (validationErrors remainingAmount formData = [])"

text \<open>\<open>handleSubmit\<close>: \<open>None\<close> when validation fails and \<open>onSave\<close> is not called.\<close>

definition handleSubmit :: "rat \<Rightarrow> PaymentFormData \<Rightarrow> PaymentInput option" where
  "handleSubmit remainingAmount formData =
     (if \<not> validateForm remainingAmount formData then None
      else Some
        \<lparr>pi_amount = the (f_amount formData),
         pi_paymentDate = f_paymentDate formData,
         pi_paymentMethod = f_paymentMethod formData,
         pi_referenceNumber =
           (if f_referenceNumber formData = [] then None else Some (f_referenceNumber formData)),
         pi_notes = (if f_notes formData = [] then None else Some (f_notes formData))\<rparr>)"

text \<open>
  The page renders the modal for the invoice \<open>showPaymentModal\<close> with
  \<open>remainingAmount = invoices[showPaymentModal].remainingAmount\<close> (a \<open>TypeError\<close> when the
  invoice is gone) and \<open>onSave = handleAddPayment\<close>, which calls \<open>addPayment\<close>.
\<close>

definition submitPayment ::
  "timestamp \<Rightarrow> string \<Rightarrow> string \<Rightarrow> PaymentFormData \<Rightarrow> SavedInvoicesData \<Rightarrow>
   error + SavedInvoicesData"
where
  "submitPayment now rnd showPaymentModal formData invoicesData =
     (case map_of (invoices invoicesData) showPaymentModal of
        None \<Rightarrow> Inl TypeError
      | Some invoice \<Rightarrow>
          (case handleSubmit (si_remainingAmount invoice) formData of
             None \<Rightarrow> Inr invoicesData
           | Some payment \<Rightarrow> Inr (addPayment now rnd showPaymentModal payment invoicesData)))"

subsection \<open>Sequences of operations\<close>

text \<open>A sequence of ledger operations on one invoice, each with its own clock reading.\<close>

datatype LedgerOp = AddPayment timestamp string PaymentInput | RemovePayment timestamp string

fun applyLedgerOp :: "string \<Rightarrow> SavedInvoicesData \<Rightarrow> LedgerOp \<Rightarrow> SavedInvoicesData" where
  "applyLedgerOp invoiceId st (AddPayment now rnd payment) = addPayment now rnd invoiceId payment st"
| "applyLedgerOp invoiceId st (RemovePayment now paymentId) = removePayment now invoiceId paymentId st"

definition runLedger :: "string \<Rightarrow> LedgerOp list \<Rightarrow> SavedInvoicesData \<Rightarrow> SavedInvoicesData" where
  "runLedger invoiceId ops st = foldl (applyLedgerOp invoiceId) st ops"

definition ledgerCorrect :: "SavedInvoice \<Rightarrow> bool" where
  "ledgerCorrect invoice =
     (si_totalPaid invoice = sum_list (map pay_amount (si_payments invoice)) \<and>
      si_remainingAmount invoice = si_finalPrice invoice - si_totalPaid invoice \<and>
      ((si_status invoice = Paid) = (si_remainingAmount invoice \<le> 0)))"

text \<open>
  The operations of the three hooks as events on the stores, and the human numbers of
  the documents each event creates.
\<close>

datatype Event =
    EvSaveQuotation timestamp CalendarDate string SaveQuotationParams
  | EvDeleteQuotation timestamp string
  | EvCreateInvoice timestamp CalendarDate string string SavedQuotation
  | EvDeleteInvoice timestamp bool string
  | EvDeleteOrder timestamp string
  | EvAddPayment timestamp string string PaymentInput
  | EvRemovePayment timestamp string string

record Issued =
  iss_quotations :: "string list"
  iss_invoices :: "string list"
  iss_orders :: "string list"

definition noneIssued :: Issued where
  "noneIssued = \<lparr>iss_quotations = [], iss_invoices = [], iss_orders = []\<rparr>"

definition issuedAppend :: "Issued \<Rightarrow> Issued \<Rightarrow> Issued" where
  "issuedAppend a b =
     \<lparr>iss_quotations = iss_quotations a @ iss_quotations b,
      iss_invoices = iss_invoices a @ iss_invoices b,
      iss_orders = iss_orders a @ iss_orders b\<rparr>"

fun step :: "AppState \<Rightarrow> Event \<Rightarrow> Issued \<times> AppState" where
  "step st (EvSaveQuotation now today rnd params) =
     (case saveQuotation now today rnd params (qdata st) of
        Inl e \<Rightarrow> (noneIssued, st)
      | Inr (quotationId, quotationsData') \<Rightarrow>
          ((if truthy (sp_existingQuotationId params) then noneIssued
            else noneIssued
              \<lparr>iss_quotations :=
                 (case map_of (quotations quotationsData') quotationId of
                    None \<Rightarrow> []
                  | Some q \<Rightarrow> [sq_quotationNumber q])\<rparr>),
           st\<lparr>qdata := quotationsData'\<rparr>))"
| "step st (EvDeleteQuotation now quotationId) =
     (noneIssued, st\<lparr>qdata := deleteQuotation now quotationId (qdata st)\<rparr>)"
| "step st (EvCreateInvoice now today rndInvoice rndOrder quotation) =
     (case handleCreateInvoice now today rndInvoice rndOrder quotation st of
        ((invoiceId, orderId), st') \<Rightarrow>
          (\<lparr>iss_quotations = [],
            iss_invoices =
              (case map_of (invoices (idata st')) invoiceId of
                 None \<Rightarrow> []
               | Some i \<Rightarrow> [si_invoiceNumber i]),
            iss_orders =
              (case map_of (orders (odata st')) orderId of
                 None \<Rightarrow> []
               | Some ord \<Rightarrow> [o_orderNumber ord])\<rparr>,
           st'))"
| "step st (EvDeleteInvoice now requireBound invoiceId) =
     (noneIssued, deleteInvoice now requireBound invoiceId st)"
| "step st (EvDeleteOrder now orderId) =
     (noneIssued, st\<lparr>odata := deleteOrder now orderId (odata st)\<rparr>)"
| "step st (EvAddPayment now rnd invoiceId payment) =
     (noneIssued, st\<lparr>idata := addPayment now rnd invoiceId payment (idata st)\<rparr>)"
| "step st (EvRemovePayment now invoiceId paymentId) =
     (noneIssued, st\<lparr>idata := removePayment now invoiceId paymentId (idata st)\<rparr>)"

fun run :: "AppState \<Rightarrow> Event list \<Rightarrow> Issued \<times> AppState" where
  "run st [] = (noneIssued, st)"
| "run st (ev # evs) =
     (case step st ev of
        (issued1, st1) \<Rightarrow>
          (case run st1 evs of (issued2, st2) \<Rightarrow> (issuedAppend issued1 issued2, st2)))"

text \<open>
  The serial a counter string holds (\<open>QT0007\<close> holds 7): the prefix followed by at least
  one decimal digit. The serial of a human number is read after the prefix and the six
  digits of the date. A \<open>Date\<close> reports a year of at least two digits (any year from
  10 on), a month from 0 to 11 and a day from 1 to 31.
\<close>

definition counterValue :: "string \<Rightarrow> string \<Rightarrow> nat option" where
  "counterValue pre counter =
     (let ds = drop (length pre) counter
      in if take (length pre) counter = pre \<and> ds \<noteq> [] \<and> list_all isDigit ds
         then Some (digits_value ds) else None)"

definition serialOf :: "string \<Rightarrow> string \<Rightarrow> int option" where
  "serialOf pre humanNumber = parseInt (drop (length pre + 6) humanNumber)"

definition validDate :: "CalendarDate \<Rightarrow> bool" where
  "validDate d = (10 \<le> cd_fullYear d \<and> cd_month d < 12 \<and> 1 \<le> cd_date d \<and> cd_date d \<le> 31)"

fun eventDateValid :: "Event \<Rightarrow> bool" where
  "eventDateValid (EvSaveQuotation now today rnd params) = validDate today"
| "eventDateValid (EvCreateInvoice now today rndInvoice rndOrder quotation) = validDate today"
| "eventDateValid ev = True"

section \<open>Properties\<close>

subsection \<open>Tax split\<close>

lemma home_state_lower: "toLowerCase (ca_state (ci_address COMPANY_INFO)) = ''karnataka''"
  by code_simp

text \<open>
  Claim C1. For every amount and every customer, \<open>calculateGST\<close> returns mode
  \<open>INTRASTATE\<close> (dual) with \<open>cgst = sgst = a * 0.09\<close> and \<open>igst = 0\<close> when the customer's
  shipping state equals the seller's home state (\<open>COMPANY_INFO\<close>) under case-insensitive
  comparison, and otherwise mode \<open>INTERSTATE\<close> (single) with \<open>igst = a * 0.18\<close> and
  \<open>cgst = sgst = 0\<close>; in both modes the total is \<open>a * 0.18\<close>. The amount need not even be
  non-negative.
\<close>

theorem calculateGST_split:
  "calculateGST a c =
     (if toLowerCase (state (shipping_address c)) =
         toLowerCase (ca_state (ci_address COMPANY_INFO))
      then \<lparr>cgst = a * 0.09, sgst = a * 0.09, igst = 0, gst_total = a * 0.18,
            gst_type = INTRASTATE\<rparr>
      else \<lparr>cgst = 0, sgst = 0, igst = a * 0.18, gst_total = a * 0.18,
            gst_type = INTERSTATE\<rparr>)"
  unfolding home_state_lower
  by (simp add: calculateGST_def GST_RATE_def Let_def)

theorem calculateGST_split_witness:
  "calculateGST 1000 mockKarnatakaCustomer =
     \<lparr>cgst = 90, sgst = 90, igst = 0, gst_total = 180, gst_type = INTRASTATE\<rparr> \<and>
   calculateGST 1000 mockOutOfStateCustomer =
     \<lparr>cgst = 0, sgst = 0, igst = 180, gst_total = 180, gst_type = INTERSTATE\<rparr>"
proof -
  have k: "toLowerCase (state (shipping_address mockKarnatakaCustomer)) = ''karnataka''"
    by code_simp
  have m: "toLowerCase (state (shipping_address mockOutOfStateCustomer)) = ''maharashtra''"
    by code_simp
  show ?thesis
    using calculateGST_split [of 1000 mockKarnatakaCustomer]
      calculateGST_split [of 1000 mockOutOfStateCustomer]
    unfolding home_state_lower k m
    by simp
qed

subsection \<open>Bulk edit: helper lemmas\<close>

lemma gst_total_eq: "gst_total (calculateGST a c) = a * 0.18"
  by (simp add: calculateGST_def GST_RATE_def Let_def)




lemma mapE_Inr:
  "mapE f xs = Inr ys \<Longrightarrow> length ys = length xs \<and> (\<forall>i<length xs. f (xs ! i) = Inr (ys ! i))"
proof (induction xs arbitrary: ys)
  case Nil
  then show ?case by simp
next
  case (Cons x xs)
  from Cons.prems obtain y ys' where y: "f x = Inr y" and ys': "mapE f xs = Inr ys'" and eq: "ys = y # ys'"
    by (auto split: sum.splits)
  from Cons.IH[OF ys'] have ih: "length ys' = length xs" "\<forall>i<length xs. f (xs ! i) = Inr (ys' ! i)"
    by simp_all
  show ?case
  proof (intro conjI allI impI)
    show "length ys = length (x # xs)" using ih eq by simp
  next
    fix i assume "i < length (x # xs)"
    then show "f ((x # xs) ! i) = Inr (ys ! i)"
      using y ih eq by (cases i) simp_all
  qed
qed

lemma mapE_Inl: "mapE f xs = Inl e \<Longrightarrow> \<exists>x\<in>set xs. f x = Inl e"
  by (induction xs) (auto split: sum.splits)

lemma mapE_total: "mapE (\<lambda>x. Inr (g x)) xs = Inr (map g xs)"
  by (induction xs) simp_all

lemma recalculate_error: "recalculate td c m q up = Inl e \<Longrightarrow> e = TypeError \<and> lookupMaterial td (the (p_technology up)) m = Inl TypeError"
  by (auto simp: recalculate_def lookupMaterial_def Let_def split: sum.splits option.splits)

lemma material_key:
  "truthy (read_key (u_material u)) \<Longrightarrow> the (read_key (u_material u)) = the (p_material (spread_part part u))"
  by (auto simp: spread_part_def spread_key_def read_key_def truthy_def split: option.splits)

lemma bulkUpdatePart_error:
  assumes "bulkUpdatePart sc td u part = Inl e"
  shows "e = TypeError \<and>
    (quantityBranch sc u (spread_part part u) \<or> materialBranch sc u (spread_part part u)) \<and>
    lookupMaterial td (the (p_technology (spread_part part u))) (the (p_material (spread_part part u))) = Inl TypeError"
proof (cases "quantityBranch sc u (spread_part part u)")
  case True
  with assms show ?thesis
    by (auto simp: bulkUpdatePart_def Let_def dest: recalculate_error)
next
  case False
  show ?thesis
  proof (cases "materialBranch sc u (spread_part part u)")
    case True
    then have "truthy (read_key (u_material u))" by (simp add: materialBranch_def)
    from material_key[OF this] False True assms show ?thesis
      by (auto simp: bulkUpdatePart_def Let_def dest!: recalculate_error)
  next
    case nm: False
    with False assms show ?thesis
      by (auto simp: bulkUpdatePart_def Let_def split: if_splits)
  qed
qed

lemma spread_quantity_block:
  "spread_part p (no_update\<lparr>u_quantity := Some q, u_totalPrice := Some t, u_gstAmount := Some g, u_finalPrice := Some f\<rparr>)
   = p\<lparr>p_quantity := q, p_totalPrice := t, p_gstAmount := g, p_finalPrice := f\<rparr>"
  by (simp add: spread_part_def no_update_def spread_key_def)

lemma mapE_if: "mapE (\<lambda>x. if c x then Inr (g x) else Inr x) xs = Inr (map (\<lambda>x. if c x then g x else x) xs)"
  by (induction xs) simp_all

lemma handleUpdatePart_no_customer:
  "handleUpdatePart None td partId u parts =
     Inr (map (\<lambda>p. if p_id p = partId then spread_part p u else p) parts)"
  by (induction parts) (simp_all add: handleUpdatePart_def updateOnePart_def)

lemmas example_defs = mockPart_def pricedPart_def clearedPart_def secondPart_def thirdPart_def
  exampleBulkUpdate_def materialOnlyUpdate_def technologyResetUpdate_def commentUpdate_def
  exampleCatalog_def no_update_def

lemmas bulk_defs = handleUpdateParts_def bulkUpdatePart_def quantityBranch_def materialBranch_def
  resetBranch_def recalculate_def lookupMaterial_def spread_part_def spread_key_def read_key_def
  truthy_def truthy_num_def Let_def

subsection \<open>Bulk edit: rule precedence\<close>




subsection \<open>Bulk edit: frame\<close>

text \<open>
  The frame property the code has. \<open>handleUpdateParts\<close> maps over the whole part list.
  When it returns, the list has the length of the input, every part whose id is not
  among the selected ids is returned identical (every field, the serial number
  included), and a selected part that matches no rule branch is the spread of the part
  and the update: each key the update carries is set, every other field is the part's.
  When it does not return, it has thrown the \<open>TypeError\<close> of a catalog read, for a selected
  part that reached a recomputing branch whose technology or material the catalog does
  not hold.
\<close>

theorem bulk_edit_frame:
  "(case handleUpdateParts sc td ids u parts of
      Inr parts' \<Rightarrow>
        length parts' = length parts \<and>
        (\<forall>i<length parts.
           (p_id (parts ! i) \<notin> set ids \<longrightarrow> parts' ! i = parts ! i) \<and>
           (p_id (parts ! i) \<in> set ids \<and>
            \<not> quantityBranch sc u (spread_part (parts ! i) u) \<and>
            \<not> materialBranch sc u (spread_part (parts ! i) u) \<and>
            \<not> resetBranch u \<longrightarrow> parts' ! i = spread_part (parts ! i) u))
    | Inl e \<Rightarrow>
        e = TypeError \<and>
        (\<exists>part\<in>set parts.
           p_id part \<in> set ids \<and>
           (quantityBranch sc u (spread_part part u) \<or> materialBranch sc u (spread_part part u)) \<and>
           lookupMaterial td (the (p_technology (spread_part part u)))
             (the (p_material (spread_part part u))) = Inl TypeError))"
proof (cases "handleUpdateParts sc td ids u parts")
  case (Inl e)
  then obtain part where part: "part \<in> set parts"
    and f: "(if p_id part \<in> set ids then bulkUpdatePart sc td u part else Inr part) = Inl e"
    unfolding handleUpdateParts_def by (blast dest: mapE_Inl)
  then have sel: "p_id part \<in> set ids" and b: "bulkUpdatePart sc td u part = Inl e"
    by (auto split: if_splits)
  from bulkUpdatePart_error[OF b] part sel Inl show ?thesis by auto
next
  case (Inr parts')
  from mapE_Inr[OF Inr[unfolded handleUpdateParts_def]]
  have len: "length parts' = length parts"
    and each: "\<forall>i<length parts. (if p_id (parts ! i) \<in> set ids then bulkUpdatePart sc td u (parts ! i) else Inr (parts ! i)) = Inr (parts' ! i)"
    by simp_all
  have "\<forall>i<length parts.
           (p_id (parts ! i) \<notin> set ids \<longrightarrow> parts' ! i = parts ! i) \<and>
           (p_id (parts ! i) \<in> set ids \<and>
            \<not> quantityBranch sc u (spread_part (parts ! i) u) \<and>
            \<not> materialBranch sc u (spread_part (parts ! i) u) \<and>
            \<not> resetBranch u \<longrightarrow> parts' ! i = spread_part (parts ! i) u)"
  proof (intro allI impI conjI)
    fix i assume i: "i < length parts" and "p_id (parts ! i) \<notin> set ids"
    with each show "parts' ! i = parts ! i" by auto
  next
    fix i assume i: "i < length parts" and h: "p_id (parts ! i) \<in> set ids \<and>
            \<not> quantityBranch sc u (spread_part (parts ! i) u) \<and>
            \<not> materialBranch sc u (spread_part (parts ! i) u) \<and>
            \<not> resetBranch u"
    from each i h have "bulkUpdatePart sc td u (parts ! i) = Inr (parts' ! i)" by auto
    with h show "parts' ! i = spread_part (parts ! i) u"
      by (simp add: bulkUpdatePart_def Let_def)
  qed
  with Inr len show ?thesis by simp
qed

theorem bulk_edit_frame_witness:
  "handleUpdateParts (Some mockKarnatakaCustomer) exampleCatalog [''part2''] commentUpdate
     [pricedPart, secondPart] =
   Inr [pricedPart, secondPart\<lparr>p_comments := Some ''urgent''\<rparr>]"
proof -
  let ?r = "handleUpdateParts (Some mockKarnatakaCustomer) exampleCatalog [''part2''] commentUpdate
     [pricedPart, secondPart]"
  have nb: "\<not> quantityBranch (Some mockKarnatakaCustomer) commentUpdate p"
    "\<not> materialBranch (Some mockKarnatakaCustomer) commentUpdate p"
    "\<not> resetBranch commentUpdate" for p
    by (simp_all add: quantityBranch_def materialBranch_def resetBranch_def commentUpdate_def
        no_update_def read_key_def truthy_def)
  have ids: "p_id pricedPart = ''part1''" "p_id secondPart = ''part2''"
    by (simp_all add: example_defs)
  have sp: "spread_part secondPart commentUpdate = secondPart\<lparr>p_comments := Some ''urgent''\<rparr>"
    by (simp add: spread_part_def spread_key_def commentUpdate_def no_update_def)
  note fr = bulk_edit_frame [where sc = "Some mockKarnatakaCustomer" and td = exampleCatalog
      and ids = "[''part2'']" and u = commentUpdate and parts = "[pricedPart, secondPart]"]
  show ?thesis
  proof (cases ?r)
    case (Inl e)
    with fr nb show ?thesis by simp
  next
    case (Inr parts')
    with fr have len: "length parts' = 2"
      and "\<forall>i<2. (p_id ([pricedPart, secondPart] ! i) \<notin> set [''part2''] \<longrightarrow>
                     parts' ! i = [pricedPart, secondPart] ! i) \<and>
                  (p_id ([pricedPart, secondPart] ! i) \<in> set [''part2''] \<and>
                   \<not> quantityBranch (Some mockKarnatakaCustomer) commentUpdate (spread_part ([pricedPart, secondPart] ! i) commentUpdate) \<and>
                   \<not> materialBranch (Some mockKarnatakaCustomer) commentUpdate (spread_part ([pricedPart, secondPart] ! i) commentUpdate) \<and>
                   \<not> resetBranch commentUpdate \<longrightarrow>
                   parts' ! i = spread_part ([pricedPart, secondPart] ! i) commentUpdate)"
      by simp_all
    then have each: "\<And>i. i < 2 \<Longrightarrow>
        (p_id ([pricedPart, secondPart] ! i) \<notin> set [''part2''] \<longrightarrow>
           parts' ! i = [pricedPart, secondPart] ! i) \<and>
        (p_id ([pricedPart, secondPart] ! i) \<in> set [''part2''] \<longrightarrow>
           parts' ! i = spread_part ([pricedPart, secondPart] ! i) commentUpdate)"
      using nb by blast
    have e0: "parts' ! 0 = pricedPart"
      using each [of 0] ids by simp
    have e1: "parts' ! 1 = secondPart\<lparr>p_comments := Some ''urgent''\<rparr>"
      using each [of 1] ids sp by simp
    from len e0 e1 have "parts' = [pricedPart, secondPart\<lparr>p_comments := Some ''urgent''\<rparr>]"
      by (cases parts'; cases "tl parts'") auto
    with Inr show ?thesis by simp
  qed
qed

text \<open>
  Claim C6: for every part list, selection and bulk update the bulk edit returns the
  complete replacement list, unselected parts unchanged. The code does not return for
  every input. With a customer selected and the parts \<open>part2\<close> (FDM) and \<open>part4\<close> (SLA)
  both selected, choosing material ABS on the card of \<open>part2\<close> sends the update
  \<open>{material: 'ABS'}\<close> to both selected ids. For \<open>part4\<close> the material branch reads
  \<open>technologies['SLA'].materials['ABS']\<close>, which is \<open>undefined\<close>, and the read of its
  \<open>cost_per_cc\<close> throws: no list is returned and \<open>updateParts\<close> is not reached.
\<close>

theorem bulk_material_change_throws:
  "handleMaterialChange secondPart twoTechnologyCatalog (Some mockKarnatakaCustomer)
     (pageSelectedParts [pricedPart, secondPart, resinPart]) True ''ABS'' =
     Inr (BulkUpdate [''part2'', ''part4''] materialOnlyUpdate) \<and>
   handleUpdateParts (Some mockKarnatakaCustomer) twoTechnologyCatalog [''part2'', ''part4'']
     materialOnlyUpdate [pricedPart, secondPart, resinPart] = Inl TypeError \<and>
   cardMaterialChange (Some mockKarnatakaCustomer) twoTechnologyCatalog
     [pricedPart, secondPart, resinPart] secondPart ''ABS'' = Inl TypeError"
  by (simp add: cardMaterialChange_def handleMaterialChange_def dispatch_def
      pageSelectedParts_def hasMultipleSelected_def isPartSelected_def example_defs bulk_defs
      twoTechnologyCatalog_def resinPart_def gst_total_eq)

theorem bulk_material_change_throws_witness:
  "cardMaterialChange (Some mockKarnatakaCustomer) twoTechnologyCatalog
     [pricedPart, secondPart, resinPart] secondPart ''ABS'' = Inl TypeError"
  using bulk_material_change_throws by blast

subsection \<open>Editing a part with no customer selected\<close>

text \<open>
  Claim C8, as the code has it. With no customer selected:
  \<^item> a material change on a part card does nothing (\<open>handleMaterialChange\<close> returns at its
    guard): no field of any part changes, the material included;
  \<^item> a quantity change on a card that is not propagated to a multi-selection sets the
    quantity and \<open>totalPrice = unitPrice * quantity\<close> from the unchanged \<open>unitPrice\<close>, and
    sets \<open>gstAmount\<close> to 0 and \<open>finalPrice\<close> to the new \<open>totalPrice\<close>.
\<close>

theorem no_customer_edits:
  "cardMaterialChange None td parts part materialId = Inr parts \<and>
   (\<not> (hasMultipleSelected (pageSelectedParts parts) \<and> isPartSelected part) \<longrightarrow>
      cardQuantityChange None td parts part q =
        Inr (map (\<lambda>p. if p_id p = p_id part
                      then p\<lparr>p_quantity := q, p_totalPrice := p_unitPrice part * q,
                             p_gstAmount := 0, p_finalPrice := p_unitPrice part * q\<rparr>
                      else p) parts))"
proof (intro conjI impI)
  show "cardMaterialChange None td parts part materialId = Inr parts"
    by (simp add: cardMaterialChange_def handleMaterialChange_def dispatch_def)
next
  assume n: "\<not> (hasMultipleSelected (pageSelectedParts parts) \<and> isPartSelected part)"
  have hq: "handleQuantityChange part None (pageSelectedParts parts) True q =
      UpdatePart (p_id part)
        (no_update\<lparr>u_quantity := Some q, u_totalPrice := Some (p_unitPrice part * q),
           u_gstAmount := Some 0, u_finalPrice := Some (p_unitPrice part * q)\<rparr>)"
    using n
    by (cases "hasMultipleSelected (pageSelectedParts parts)"; cases "isPartSelected part")
       (simp_all add: handleQuantityChange_def Let_def)
  show "cardQuantityChange None td parts part q =
        Inr (map (\<lambda>p. if p_id p = p_id part
                      then p\<lparr>p_quantity := q, p_totalPrice := p_unitPrice part * q,
                             p_gstAmount := 0, p_finalPrice := p_unitPrice part * q\<rparr>
                      else p) parts)"
    by (simp add: cardQuantityChange_def hq dispatch_def handleUpdatePart_no_customer
        spread_quantity_block)
qed

theorem no_customer_edits_witness:
  "cardMaterialChange None exampleCatalog [clearedPart] clearedPart ''ABS'' = Inr [clearedPart] \<and>
   cardQuantityChange None exampleCatalog [clearedPart] clearedPart 2 =
     Inr [clearedPart\<lparr>p_quantity := 2, p_totalPrice := 73.5, p_gstAmount := 0,
            p_finalPrice := 73.5\<rparr>]"
proof -
  have single: "\<not> (hasMultipleSelected (pageSelectedParts [clearedPart]) \<and> isPartSelected clearedPart)"
    by (simp add: hasMultipleSelected_def pageSelectedParts_def example_defs)
  have ids: "p_id clearedPart = ''part1''" "p_unitPrice clearedPart = 36.75"
    by (simp_all add: example_defs)
  show ?thesis
    using no_customer_edits [where td = exampleCatalog and parts = "[clearedPart]"
        and part = clearedPart and materialId = "''ABS''" and q = 2]
      single
    by (simp add: ids)
qed

text \<open>
  Claim C8 as the specification states it fails. On a part priced in PLA whose customer
  was cleared (\<open>finalPrice = 36.75\<close>), the quantity change to 2 moves \<open>finalPrice\<close> to 73.5
  instead of leaving it, and the material change to ABS updates neither \<open>unitPrice\<close> nor
  \<open>totalPrice\<close> (with a customer it would).
\<close>

theorem no_customer_counterexample:
  "cardQuantityChange None exampleCatalog [clearedPart] clearedPart 2 =
     Inr [clearedPart\<lparr>p_quantity := 2, p_totalPrice := 73.5, p_finalPrice := 73.5\<rparr>] \<and>
   p_finalPrice clearedPart = 36.75 \<and>
   cardMaterialChange None exampleCatalog [clearedPart] clearedPart ''ABS'' = Inr [clearedPart] \<and>
   cardMaterialChange (Some mockKarnatakaCustomer) exampleCatalog [clearedPart] clearedPart ''ABS'' =
     Inr [clearedPart\<lparr>p_material := Some ''ABS'', p_unitPrice := 42, p_totalPrice := 42,
            p_gstAmount := 7.56, p_finalPrice := 49.56\<rparr>]"
  by (simp add: cardQuantityChange_def cardMaterialChange_def handleQuantityChange_def
      handleMaterialChange_def dispatch_def handleUpdatePart_def updateOnePart_def
      pageSelectedParts_def hasMultipleSelected_def isPartSelected_def example_defs bulk_defs
      gst_total_eq)

end
